theory Spec2Isabelle
  imports Main "HOL-Library.AList"
begin

section \<open>Values of the host language\<close>

text \<open>
  The library inspects values of any JavaScript type (\<^verbatim>\<open>value: string | number | any\<close>).
  A primitive string and a \<^verbatim>\<open>String\<close> wrapper object are different values: only the
  second one is an \<^verbatim>\<open>instanceof String\<close>. A \<^verbatim>\<open>Date\<close> carries its time value, the
  milliseconds since the epoch, or no number at all when the date is invalid (NaN).
  An array and a set are the lists of their elements, a plain object is the list of
  its own properties in the order of \<^verbatim>\<open>Object.keys\<close>. The values hold no
  function, so no property of a plain object is callable. A symbol is its
  description, a BigInt its integer. No operation of the library reads the digits
  of a number, it only tests a number for being 0 or NaN and takes it for a time
  value, so a finite number is kept as an integer.
\<close>

datatype jsnumber = NaN | PosInfinity | NegInfinity | Finite int

datatype jsvalue =
    VUndefined
  | VNull
  | VBoolean bool
  | VNumber jsnumber
  | VString string
  | VStringObject string
  | VArray "jsvalue list"
  | VSet "jsvalue list"
  | VDate "int option"
  | VObject "(string \<times> jsvalue) list"
  | VSymbol string
  | VBigInt int

datatype error = AssertionError string | TypeError string

text \<open>
  What the library takes from its host and what is not part of the repository:
  the clock (\<^verbatim>\<open>Date.now()\<close>), the offset of local time from UTC (a fixed offset, in
  milliseconds: daylight saving is left out), the time value of \<^verbatim>\<open>new Date(v)\<close> for a
  \<^verbatim>\<open>v\<close> that the host turns into a string and parses (a string, a String object, an
  array, a set, a plain object with the inherited \<^verbatim>\<open>toString\<close>), which is a
  number, NaN, or a TypeError thrown by the conversion,
  and the reading of a property from a value that is neither a plain object nor
  \<^verbatim>\<open>null\<close>/\<^verbatim>\<open>undefined\<close> (the built-in properties of strings, arrays and the like).
  One host value stands for one reading of the clock.
\<close>

record host =
  now :: int
  LocalTZA :: int
  dateValue :: "jsvalue \<Rightarrow> error + int option"
  hostProperty :: "jsvalue \<Rightarrow> string \<Rightarrow> jsvalue"

text \<open>\<^verbatim>\<open>!v\<close> is true for the falsy values: undefined, null, false, 0, NaN and the empty
  primitive string and the BigInt 0. Every object and every symbol is truthy.\<close>

fun truthy :: "jsvalue \<Rightarrow> bool" where
  "truthy VUndefined = False"
| "truthy VNull = False"
| "truthy (VBoolean b) = b"
| "truthy (VNumber NaN) = False"
| "truthy (VNumber (Finite n)) = (n \<noteq> 0)"
| "truthy (VNumber n) = True"
| "truthy (VString s) = (s \<noteq> [])"
| "truthy (VBigInt n) = (n \<noteq> 0)"
| "truthy v = True"

text \<open>\<^verbatim>\<open>data[key]\<close>: reading a property of undefined or null throws a TypeError, a
  plain object gives its own property or undefined (properties inherited from
  \<^verbatim>\<open>Object.prototype\<close> are left out), any other value is read by the host.\<close>

fun getProperty :: "host \<Rightarrow> jsvalue \<Rightarrow> string \<Rightarrow> error + jsvalue" where
  "getProperty hst VUndefined k =
     Inl (TypeError (''Cannot read properties of undefined (reading '' @ k @ '')''))"
| "getProperty hst VNull k =
     Inl (TypeError (''Cannot read properties of null (reading '' @ k @ '')''))"
| "getProperty hst (VObject props) k =
     Inr (case map_of props k of None \<Rightarrow> VUndefined | Some v \<Rightarrow> v)"
| "getProperty hst v k = Inr (hostProperty hst v k)"

section \<open>Strings\<close>

text \<open>
  Strings are lists of 8-bit characters, the code units below 256. The white space
  of that range is tab to carriage return, the space and the no-break space; the
  case mapping is that of ASCII, the range the model covers for letters.
\<close>

definition toLowerChar :: "char \<Rightarrow> char" where
  "toLowerChar c =
     (let n = (of_char c :: nat) in if 65 \<le> n \<and> n \<le> 90 then char_of (n + 32) else c)"

definition toUpperChar :: "char \<Rightarrow> char" where
  "toUpperChar c =
     (let n = (of_char c :: nat) in if 97 \<le> n \<and> n \<le> 122 then char_of (n - 32) else c)"

definition toLowerCase :: "string \<Rightarrow> string" where
  "toLowerCase s = map toLowerChar s"

fun upperFirst :: "string \<Rightarrow> string" where
  "upperFirst [] = []"
| "upperFirst (c # cs) = toUpperChar c # cs"

text \<open>lodash's \<^verbatim>\<open>capitalize\<close>: \<^verbatim>\<open>upperFirst(toString(string).toLowerCase())\<close>.\<close>

definition capitalize :: "string \<Rightarrow> string" where
  "capitalize s = upperFirst (toLowerCase s)"

text \<open>\<^verbatim>\<open>s.replaceAll("_", " ")\<close>.\<close>

definition replaceAll_underscore :: "string \<Rightarrow> string" where
  "replaceAll_underscore s = map (\<lambda>c. if c = CHR ''_'' then CHR '' '' else c) s"

definition isWhiteSpace :: "char \<Rightarrow> bool" where
  "isWhiteSpace c = (let n = (of_char c :: nat) in (9 \<le> n \<and> n \<le> 13) \<or> n = 32 \<or> n = 160)"

text \<open>\<^verbatim>\<open>s.trim()\<close> removes the white space at both ends.\<close>

definition trim :: "string \<Rightarrow> string" where
  "trim s = rev (dropWhile isWhiteSpace (rev (dropWhile isWhiteSpace s)))"

text \<open>
  A field name is typed \<^verbatim>\<open>string\<close>; at run time the property can also hold
  \<^verbatim>\<open>null\<close> or \<^verbatim>\<open>undefined\<close>, the case the assertion of the required check is about.
  \<^verbatim>\<open>String(field)\<close> turns them into the words "null" and "undefined".
\<close>

datatype fieldname = FNull | FUndefined | FString string

fun String_of :: "fieldname \<Rightarrow> string" where
  "String_of FNull = ''null''"
| "String_of FUndefined = ''undefined''"
| "String_of (FString s) = s"

text \<open>\<^verbatim>\<open>fieldReadable = (field) => capitalize(String(field).replaceAll("_", " "))\<close>\<close>

definition fieldReadable :: "fieldname \<Rightarrow> string" where
  "fieldReadable field = capitalize (replaceAll_underscore (String_of field))"

section \<open>The assertion primitive\<close>

text \<open>\<^verbatim>\<open>assert(condition, msg)\<close> throws an AssertionError with \<^verbatim>\<open>msg ?? "Assertion failed"\<close>
  when the condition is false, and returns otherwise.\<close>

definition assert :: "bool \<Rightarrow> string option \<Rightarrow> error + unit" where
  "assert condition msg =
     (if \<not> condition
      then Inl (AssertionError (case msg of None \<Rightarrow> ''Assertion failed'' | Some m \<Rightarrow> m))
      else Inr ())"

section \<open>Descriptors and the heap\<close>

text \<open>
  \<^verbatim>\<open>const enum FieldType { String = 0, Array = 1, File = 2 }\<close> and
  \<^verbatim>\<open>interface Criteria { required: boolean; type: FieldType }\<close>.
\<close>

datatype FieldType = String | Array | File

record Criteria =
  required :: bool
  type :: FieldType

text \<open>\<^verbatim>\<open>keyof Criteria\<close>, the keys of the message overrides.\<close>

datatype CriteriaKey = required_key | type_key

text \<open>
  A custom validator is a function \<^verbatim>\<open>(value: any) => string | null\<close>. The
  functions the library itself pushes onto \<^verbatim>\<open>customCriteria\<close> are the closures made
  by \<^verbatim>\<open>onlyFuture\<close>; each one captures the optional message \<^verbatim>\<open>msg\<close> and the
  descriptor \<^verbatim>\<open>_this\<close> (by reference, here its address). \<^verbatim>\<open>customCriteria\<close> is a
  public array, so a caller can push a function of its own: any function of the
  value that returns a message or null, as its type says.
\<close>

datatype CustomValidator =
    onlyFuture_closure "string option" nat
  | custom_function "jsvalue \<Rightarrow> string option"

text \<open>
  The descriptor object. \<^verbatim>\<open>criteria\<close> holds a reference to a Criteria object,
  \<^verbatim>\<open>_messages\<close> is a \<^verbatim>\<open>Map\<close> (its entries in insertion order), \<^verbatim>\<open>__isValidator\<close>
  is the constant \<^verbatim>\<open>true\<close> and is what makes a schema entry a leaf (see \<open>schema_entry\<close>).
\<close>

record TypedValidationCriteriaBuilder =
  fieldName :: fieldname
  criteria :: nat
  customCriteria :: "CustomValidator list"
  messages :: "(CriteriaKey \<times> string) list"

text \<open>
  Objects are mutated in place and shared by reference, so they live in a store:
  the Criteria objects and the descriptors, each under its address. \<open>nextBuilder\<close>
  is the address the next descriptor gets: the descriptors of a heap are the ones
  at the addresses below it, and every address a program holds comes from
  \<open>typedField\<close>.
\<close>

record heap =
  criteriaObjects :: "nat \<Rightarrow> Criteria"
  builders :: "nat \<Rightarrow> TypedValidationCriteriaBuilder"
  nextBuilder :: nat

text \<open>
  \<^verbatim>\<open>const DEFAULT_CRITERIA: Criteria = { required: false, type: FieldType.String }\<close>
  is one object, made when the module is loaded. \<open>DEFAULT_CRITERIA\<close> is its address
  and \<open>module_loaded\<close> the heap right after loading: no descriptor yet.
\<close>

definition DEFAULT_CRITERIA :: nat where
  "DEFAULT_CRITERIA = 0"

definition module_loaded :: heap where
  "module_loaded =
     \<lparr> criteriaObjects = (\<lambda>a. \<lparr> required = False, type = String \<rparr>),
       builders = (\<lambda>a. \<lparr> fieldName = FUndefined, criteria = DEFAULT_CRITERIA,
                           customCriteria = [], messages = [] \<rparr>),
       nextBuilder = 0 \<rparr>"

section \<open>Messages\<close>

text \<open>
  \<^verbatim>\<open>buildDefaultMessageForCriteria\<close>: the switch has a case for "required" only;
  any other key logs to the console and gives "Unknown error".
\<close>

definition buildDefaultMessageForCriteria :: "CriteriaKey \<Rightarrow> fieldname \<Rightarrow> string" where
  "buildDefaultMessageForCriteria crit fName =
     (let fn = fieldReadable fName
      in case crit of
           required_key \<Rightarrow> fn @ '' is required''
         | type_key \<Rightarrow> ''Unknown error'')"

text \<open>
  \<^verbatim>\<open>getMessageForCriteria\<close>: \<^verbatim>\<open>!customMsg\<close> holds for a missing entry and for the
  empty string.
\<close>

definition getMessageForCriteria ::
  "TypedValidationCriteriaBuilder \<Rightarrow> fieldname \<Rightarrow> CriteriaKey \<Rightarrow> string" where
  "getMessageForCriteria builder fName crit =
     (case map_of (messages builder) crit of
        None \<Rightarrow> buildDefaultMessageForCriteria crit fName
      | Some customMsg \<Rightarrow>
          if customMsg = [] then buildDefaultMessageForCriteria crit fName else customMsg)"

section \<open>Dates\<close>

text \<open>
  The arithmetic of \<^verbatim>\<open>Date\<close> on time values (milliseconds since the epoch), after
  the ECMAScript definitions of Day, WeekDay, YearFromTime, MonthFromTime and
  MakeDay, with the proleptic Gregorian calendar computed on eras of 400 years.
  Months count from 0, week days from Sunday = 0.
\<close>

definition msPerDay :: int where
  "msPerDay = 86400000"

definition Day :: "int \<Rightarrow> int" where
  "Day t = t div msPerDay"

definition WeekDay :: "int \<Rightarrow> int" where
  "WeekDay t = (Day t + 4) mod 7"

text \<open>The day number of the first day of month \<open>mn\<close> (0 to 11) of year \<open>ym\<close>.\<close>

definition DayFromYearMonth :: "int \<Rightarrow> int \<Rightarrow> int" where
  "DayFromYearMonth ym mn =
     (let y = (if mn < 2 then ym - 1 else ym);
          era = y div 400;
          yoe = y - era * 400;
          mp = (if mn < 2 then mn + 10 else mn - 2);
          doy = (153 * mp + 2) div 5;
          doe = yoe * 365 + yoe div 4 - yoe div 100 + doy
      in era * 146097 + doe - 719468)"

text \<open>The year and the month (0 to 11) a day number falls in.\<close>

definition YearMonthFromDay :: "int \<Rightarrow> int \<times> int" where
  "YearMonthFromDay z =
     (let z1 = z + 719468;
          era = z1 div 146097;
          doe = z1 - era * 146097;
          yoe = (doe - doe div 1460 + doe div 36524 - doe div 146096) div 365;
          doy = doe - (365 * yoe + yoe div 4 - yoe div 100);
          mp = (5 * doy + 2) div 153;
          mn = (if mp < 10 then mp + 2 else mp - 10)
      in (if mn < 2 then yoe + era * 400 + 1 else yoe + era * 400, mn))"

definition YearFromTime :: "int \<Rightarrow> int" where
  "YearFromTime t = fst (YearMonthFromDay (Day t))"

definition MonthFromTime :: "int \<Rightarrow> int" where
  "MonthFromTime t = snd (YearMonthFromDay (Day t))"

text \<open>The day of the month, 1 to 31 (\<^verbatim>\<open>getDate\<close>); the source does not call it.\<close>

definition DateFromTime :: "int \<Rightarrow> int" where
  "DateFromTime t =
     Day t - DayFromYearMonth (YearFromTime t) (MonthFromTime t) + 1"

definition MakeDay :: "int \<Rightarrow> int \<Rightarrow> int \<Rightarrow> int" where
  "MakeDay year month date =
     DayFromYearMonth (year + month div 12) (month mod 12) + date - 1"

definition LocalTime :: "host \<Rightarrow> int \<Rightarrow> int" where
  "LocalTime hst t = t + LocalTZA hst"

definition UTC :: "host \<Rightarrow> int \<Rightarrow> int" where
  "UTC hst t = t - LocalTZA hst"

text \<open>
  \<^verbatim>\<open>new Date(year, month, day).getTime()\<close>: local midnight of that day; a year
  from 0 to 99 stands for 1900 + year. Times are taken to be in the range a
  \<^verbatim>\<open>Date\<close> can hold.
\<close>

definition new_Date_ymd :: "host \<Rightarrow> int \<Rightarrow> int \<Rightarrow> int \<Rightarrow> int" where
  "new_Date_ymd hst year month date =
     (let yr = (if 0 \<le> year \<and> year \<le> 99 then 1900 + year else year)
      in UTC hst (MakeDay yr month date * msPerDay))"

definition getFullYear :: "host \<Rightarrow> int \<Rightarrow> int" where
  "getFullYear hst t = YearFromTime (LocalTime hst t)"

definition getMonth :: "host \<Rightarrow> int \<Rightarrow> int" where
  "getMonth hst t = MonthFromTime (LocalTime hst t)"

definition getDate :: "host \<Rightarrow> int \<Rightarrow> int" where
  "getDate hst t = DateFromTime (LocalTime hst t)"

definition getDay :: "host \<Rightarrow> int \<Rightarrow> int" where
  "getDay hst t = WeekDay (LocalTime hst t)"

text \<open>
  \<^verbatim>\<open>
  const timeOfThisDay = (): number => {
    const now = new Date(Date.now());
    return new Date(now.getFullYear(), now.getMonth(), now.getDay()).getTime();
  };
  \<close>
\<close>

definition timeOfThisDay :: "host \<Rightarrow> int" where
  "timeOfThisDay hst =
     (let t = now hst
      in new_Date_ymd hst (getFullYear hst t) (getMonth hst t) (getDay hst t))"

text \<open>The start of today in the words of the specification, "today's date at local
  midnight", to compare \<open>timeOfThisDay\<close> with: the day of the month (\<^verbatim>\<open>getDate\<close>)
  in the place of the day of the week.\<close>

definition startOfToday_spec :: "host \<Rightarrow> int" where
  "startOfToday_spec hst =
     (let t = now hst
      in new_Date_ymd hst (getFullYear hst t) (getMonth hst t) (getDate hst t))"

text \<open>\<^verbatim>\<open>TimeClip\<close>: a time value beyond 8.64e15 milliseconds is NaN. \<open>None\<close> is
  NaN, the time value of an invalid date.\<close>

definition TimeClip :: "jsnumber \<Rightarrow> int option" where
  "TimeClip n =
     (case n of
        Finite t \<Rightarrow> if abs t \<le> 8640000000000000 then Some t else None
      | _ \<Rightarrow> None)"

text \<open>
  \<^verbatim>\<open>new Date(v).getTime()\<close>, which can throw. A Date is copied. Any other value is
  first made a primitive: undefined is NaN, null is 0, a boolean 0 or 1, a number is
  clipped; a symbol and a BigInt have no number, which is a TypeError; a plain object
  with a property \<^verbatim>\<open>toString\<close> of its own (not callable) has no primitive, a
  TypeError as well. What is left goes through a string and the host's parser.
\<close>

fun new_Date_getTime :: "host \<Rightarrow> jsvalue \<Rightarrow> error + int option" where
  "new_Date_getTime hst (VDate t) = Inr t"
| "new_Date_getTime hst VUndefined = Inr None"
| "new_Date_getTime hst VNull = Inr (Some 0)"
| "new_Date_getTime hst (VBoolean b) = Inr (Some (if b then 1 else 0))"
| "new_Date_getTime hst (VNumber n) = Inr (TimeClip n)"
| "new_Date_getTime hst (VSymbol d) =
     Inl (TypeError ''Cannot convert a Symbol value to a number'')"
| "new_Date_getTime hst (VBigInt n) =
     Inl (TypeError ''Cannot convert a BigInt value to a number'')"
| "new_Date_getTime hst (VObject props) =
     (case map_of props ''toString'' of
        None \<Rightarrow> dateValue hst (VObject props)
      | Some f \<Rightarrow> Inl (TypeError ''Cannot convert object to primitive value''))"
| "new_Date_getTime hst v = dateValue hst v"

section \<open>The field builder\<close>

text \<open>
  \<^verbatim>\<open>field(fieldName)\<close> makes the untyped builder: the name and the four kind
  selectors, which are closures over the builder itself.
\<close>

record UntypedValidationCriteriaBuilder =
  untyped_fieldName :: fieldname

definition field :: "fieldname \<Rightarrow> UntypedValidationCriteriaBuilder" where
  "field fName = \<lparr> untyped_fieldName = fName \<rparr>"

text \<open>
  \<^verbatim>\<open>
  const _this: TypedValidationCriteriaBuilder = {
    ...field,
    __isValidator: true,
    criteria: DEFAULT_CRITERIA,
    customCriteria: [],
    _messages: new Map(),
    validate: ..., required: ...
  };
  return _this;
  \<close>
  A new descriptor object: the array and the Map are new, the Criteria is the
  reference \<open>DEFAULT_CRITERIA\<close>. The result is the address of the new object.
\<close>

definition typedField :: "UntypedValidationCriteriaBuilder \<Rightarrow> heap \<Rightarrow> nat \<times> heap" where
  "typedField fld h =
     (let this = nextBuilder h;
          obj = \<lparr> fieldName = untyped_fieldName fld,
                  criteria = DEFAULT_CRITERIA,
                  customCriteria = [],
                  messages = [] \<rparr>
      in (this, h\<lparr> builders := (builders h)(this := obj), nextBuilder := Suc this \<rparr>))"

text \<open>
  The method \<^verbatim>\<open>validate\<close> and what it calls run on the heap: each function below
  takes the heap as its last argument and returns what the code returns, a value or
  the exception thrown, together with the heap it leaves. The array \<^verbatim>\<open>err\<close> is
  made in the call and known to nobody else until it is returned, so it is passed
  along as a list.
\<close>

text \<open>The closure \<^verbatim>\<open>f\<close> of the required check: the assertion on the field name,
  then \<^verbatim>\<open>err.push(getMessageForCriteria(_this, _this._fieldName, "required"))\<close>.\<close>

definition required_f :: "nat \<Rightarrow> string list \<Rightarrow> heap \<Rightarrow> (error + string list) \<times> heap" where
  "required_f this err h =
     (let b = builders h this
      in case assert (fieldName b \<noteq> FNull) (Some ''Field name not specified'') of
           Inl e \<Rightarrow> (Inl e, h)
         | Inr u \<Rightarrow> (Inr (err @ [getMessageForCriteria b (fieldName b) required_key]), h))"

text \<open>
  \<^verbatim>\<open>
  if (_this.criteria.required) {
    if (value === undefined) f();
    else if (value instanceof String && value.trim().length === 0) f();
    else if (value instanceof Array && value.length === 0) f();
    else if (value instanceof Set && value.size === 0) f();
  }
  \<close>
  A primitive string is not an \<^verbatim>\<open>instanceof String\<close>.
\<close>

definition required_check ::
  "nat \<Rightarrow> jsvalue \<Rightarrow> string list \<Rightarrow> heap \<Rightarrow> (error + string list) \<times> heap" where
  "required_check this v err h =
     (if required (criteriaObjects h (criteria (builders h this))) then
        (case v of
           VUndefined \<Rightarrow> required_f this err h
         | VStringObject s \<Rightarrow> if length (trim s) = 0 then required_f this err h else (Inr err, h)
         | VArray xs \<Rightarrow> if length xs = 0 then required_f this err h else (Inr err, h)
         | VSet xs \<Rightarrow> if length xs = 0 then required_f this err h else (Inr err, h)
         | _ \<Rightarrow> (Inr err, h))
      else (Inr err, h))"

text \<open>
  The closure pushed by \<^verbatim>\<open>onlyFuture\<close>:
  \<^verbatim>\<open>
  (_value: Date) => {
    if (!_value) return null;
    const value = new Date(_value);
    const vt = value.getTime();
    const now = timeOfThisDay();
    if (vt < now) {
      const m = msg ? msg : `${fieldReadable(_this._fieldName)} can't be in the past`;
      return m;
    }
    return null;
  }
  \<close>
  \<^verbatim>\<open>new Date(_value)\<close> can throw; a comparison with NaN is false.
\<close>

definition onlyFuture_check ::
  "host \<Rightarrow> string option \<Rightarrow> nat \<Rightarrow> jsvalue \<Rightarrow> heap \<Rightarrow> (error + string option) \<times> heap" where
  "onlyFuture_check hst msg this v h =
     (if \<not> truthy v then (Inr None, h)
      else
        case new_Date_getTime hst v of
          Inl e \<Rightarrow> (Inl e, h)
        | Inr vt \<Rightarrow>
            let nw = timeOfThisDay hst
            in if (case vt of None \<Rightarrow> False | Some t \<Rightarrow> t < nw)
               then (Inr (Some (case msg of
                        None \<Rightarrow> fieldReadable (fieldName (builders h this)) @ '' can't be in the past''
                      | Some m \<Rightarrow>
                          if m = []
                          then fieldReadable (fieldName (builders h this)) @ '' can't be in the past''
                          else m)), h)
               else (Inr None, h))"

text \<open>The call \<^verbatim>\<open>customChecker(value)\<close> of an element of \<^verbatim>\<open>customCriteria\<close>.\<close>

fun customChecker ::
  "host \<Rightarrow> CustomValidator \<Rightarrow> jsvalue \<Rightarrow> heap \<Rightarrow> (error + string option) \<times> heap" where
  "customChecker hst (onlyFuture_closure msg this) v h = onlyFuture_check hst msg this v h"
| "customChecker hst (custom_function f) v h = (Inr (f v), h)"

text \<open>
  \<^verbatim>\<open>
  for (let customChecker of _this.customCriteria) {
    const e = customChecker(value);
    if (e === null) continue;
    err.push(e);
  }
  \<close>
  An exception out of a criterion ends the loop.
\<close>

fun customCriteria_loop ::
  "host \<Rightarrow> CustomValidator list \<Rightarrow> jsvalue \<Rightarrow> string list \<Rightarrow> heap \<Rightarrow>
   (error + string list) \<times> heap" where
  "customCriteria_loop hst [] v err h = (Inr err, h)"
| "customCriteria_loop hst (c # cs) v err h =
     (case customChecker hst c v h of
        (Inl x, h1) \<Rightarrow> (Inl x, h1)
      | (Inr None, h1) \<Rightarrow> customCriteria_loop hst cs v err h1
      | (Inr (Some e), h1) \<Rightarrow> customCriteria_loop hst cs v (err @ [e]) h1)"

text \<open>The call of the method \<^verbatim>\<open>validate\<close> of the descriptor at address \<open>this\<close>:
  the array \<^verbatim>\<open>err\<close> starts empty, the required check, the loop, \<^verbatim>\<open>return err\<close>.\<close>

definition validate_method_call ::
  "host \<Rightarrow> nat \<Rightarrow> jsvalue \<Rightarrow> heap \<Rightarrow> (error + string list) \<times> heap" where
  "validate_method_call hst this v h =
     (case required_check this v [] h of
        (Inl e, h1) \<Rightarrow> (Inl e, h1)
      | (Inr err, h1) \<Rightarrow> customCriteria_loop hst (customCriteria (builders h1 this)) v err h1)"

text \<open>What the call returns, or throws, in the heap \<open>h\<close>.\<close>

definition validate_method :: "host \<Rightarrow> heap \<Rightarrow> nat \<Rightarrow> jsvalue \<Rightarrow> error + string list" where
  "validate_method hst h this v = fst (validate_method_call hst this v h)"

text \<open>
  \<^verbatim>\<open>
  required: (msg?: string) => {
    _this.criteria.required = true;
    if (msg) { _this._messages.set("required", msg); }
    return _this;
  }
  \<close>
  The assignment writes into the Criteria object that \<^verbatim>\<open>_this.criteria\<close> refers
  to. The method returns \<^verbatim>\<open>_this\<close>, the address it was called on.
\<close>

definition required_method :: "nat \<Rightarrow> string option \<Rightarrow> heap \<Rightarrow> heap" where
  "required_method this msg h =
     (let c = criteria (builders h this);
          h1 = h\<lparr> criteriaObjects :=
                    (criteriaObjects h)(c := (criteriaObjects h c)\<lparr> required := True \<rparr>) \<rparr>
      in case msg of
           None \<Rightarrow> h1
         | Some m \<Rightarrow>
             if m = [] then h1
             else h1\<lparr> builders :=
                        (builders h1)(this := (builders h1 this)
                           \<lparr> messages := AList.update required_key m (messages (builders h1 this)) \<rparr>) \<rparr>)"

text \<open>
  \<^verbatim>\<open>dateField\<close> is \<^verbatim>\<open>typedField\<close> plus the method \<^verbatim>\<open>onlyFuture\<close>, which pushes
  a closure onto \<^verbatim>\<open>_this.customCriteria\<close> and returns \<^verbatim>\<open>_this\<close>.
\<close>

definition dateField :: "UntypedValidationCriteriaBuilder \<Rightarrow> heap \<Rightarrow> nat \<times> heap" where
  "dateField fld h = typedField fld h"

definition onlyFuture_method :: "nat \<Rightarrow> string option \<Rightarrow> heap \<Rightarrow> heap" where
  "onlyFuture_method this msg h =
     h\<lparr> builders :=
          (builders h)(this := (builders h this)
             \<lparr> customCriteria := customCriteria (builders h this) @ [onlyFuture_closure msg this] \<rparr>) \<rparr>"

text \<open>The caller's \<^verbatim>\<open>descriptor.customCriteria.push(f)\<close> on the public array.\<close>

definition customCriteria_push :: "nat \<Rightarrow> (jsvalue \<Rightarrow> string option) \<Rightarrow> heap \<Rightarrow> heap" where
  "customCriteria_push this f h =
     h\<lparr> builders :=
          (builders h)(this := (builders h this)
             \<lparr> customCriteria := customCriteria (builders h this) @ [custom_function f] \<rparr>) \<rparr>"

text \<open>The kind selectors of the untyped builder.\<close>

definition string_method :: "UntypedValidationCriteriaBuilder \<Rightarrow> heap \<Rightarrow> nat \<times> heap" where
  "string_method this h = typedField this h"

definition array_method :: "UntypedValidationCriteriaBuilder \<Rightarrow> heap \<Rightarrow> nat \<times> heap" where
  "array_method this h = typedField this h"

definition file_method :: "UntypedValidationCriteriaBuilder \<Rightarrow> heap \<Rightarrow> nat \<times> heap" where
  "file_method this h = typedField this h"

definition date_method :: "UntypedValidationCriteriaBuilder \<Rightarrow> heap \<Rightarrow> nat \<times> heap" where
  "date_method this h = dateField this h"

section \<open>The schema validator\<close>

text \<open>
  A schema is an object; each of its entries is a descriptor (a reference), a
  nested schema, or \<^verbatim>\<open>undefined\<close> (the properties of \<^verbatim>\<open>ValidationSchema\<close> are
  optional). The entries are listed in the order of \<^verbatim>\<open>Object.keys\<close>.
\<close>

datatype schema_entry =
    SValidator nat
  | SNested "(string \<times> schema_entry) list"
  | SUndefined

text \<open>The result: \<^verbatim>\<open>Array<string> | Map<keyof T, VEErrorContainer<T>>\<close>, a Map as
  the list of its entries in insertion order.\<close>

datatype VEErrorContainer =
    Messages "string list"
  | Errors "(string \<times> VEErrorContainer) list"

text \<open>
  \<^verbatim>\<open>isFinalValidatorField = (field) => field && field.__isValidator !== undefined\<close>.
  A descriptor has the property; a nested schema has it when it has an entry of
  that name that is not undefined.
\<close>

fun isFinalValidatorField :: "schema_entry \<Rightarrow> bool" where
  "isFinalValidatorField (SValidator r) = True"
| "isFinalValidatorField (SNested entries) =
     (case map_of entries ''__isValidator'' of
        None \<Rightarrow> False
      | Some e \<Rightarrow> e \<noteq> SUndefined)"
| "isFinalValidatorField SUndefined = False"

text \<open>
  \<^verbatim>\<open>
  export const validate = function (schema, data) {
    let validationErrors = new Map();
    for (let fieldName of Object.keys(schema)) {
      const field = schema[_fieldName]!;
      const value = data[_fieldName];
      if (isFinalValidatorField(field)) {
        const e = field.validate(value);
        if (e.length !== 0) validationErrors.set(_fieldName, e);
      } else {
        const res = validate(field, value);
        if (res.size !== 0) validationErrors.set(_fieldName, res);
      }
    }
    return validationErrors;
  };
  \<close>
  \<open>validate_loop\<close> is the loop over the entries that are left, with the Map built so
  far, on the heap. Reading \<^verbatim>\<open>data[_fieldName]\<close> throws when \<^verbatim>\<open>data\<close> is
  undefined or null. A descriptor is a final field, and its method \<^verbatim>\<open>validate\<close>
  is called; \<^verbatim>\<open>field.validate\<close> is not a function when a nested schema passes for
  a final field; \<^verbatim>\<open>Object.keys(undefined)\<close> throws in the recursive call on an
  undefined entry.
\<close>

fun validate_loop ::
  "host \<Rightarrow> (string \<times> schema_entry) list \<Rightarrow> jsvalue \<Rightarrow>
   (string \<times> VEErrorContainer) list \<Rightarrow> heap \<Rightarrow>
   (error + (string \<times> VEErrorContainer) list) \<times> heap" where
  "validate_loop hst [] data validationErrors h = (Inr validationErrors, h)"
| "validate_loop hst ((fName, SValidator r) # rest) data validationErrors h =
     (case getProperty hst data fName of
        Inl x \<Rightarrow> (Inl x, h)
      | Inr v \<Rightarrow>
          (case validate_method_call hst r v h of
             (Inl x, h1) \<Rightarrow> (Inl x, h1)
           | (Inr e, h1) \<Rightarrow>
               validate_loop hst rest data
                 (if length e \<noteq> 0 then AList.update fName (Messages e) validationErrors
                  else validationErrors) h1))"
| "validate_loop hst ((fName, SNested entries) # rest) data validationErrors h =
     (case getProperty hst data fName of
        Inl x \<Rightarrow> (Inl x, h)
      | Inr v \<Rightarrow>
          if isFinalValidatorField (SNested entries)
          then (Inl (TypeError ''field.validate is not a function''), h)
          else
            (case validate_loop hst entries v [] h of
               (Inl x, h1) \<Rightarrow> (Inl x, h1)
             | (Inr res, h1) \<Rightarrow>
                 validate_loop hst rest data
                   (if length res \<noteq> 0 then AList.update fName (Errors res) validationErrors
                    else validationErrors) h1))"
| "validate_loop hst ((fName, SUndefined) # rest) data validationErrors h =
     (case getProperty hst data fName of
        Inl x \<Rightarrow> (Inl x, h)
      | Inr v \<Rightarrow> (Inl (TypeError ''Cannot convert undefined or null to object''), h))"

text \<open>The call \<^verbatim>\<open>validate(schema, data)\<close> on the heap, and what it returns or
  throws in the heap \<open>h\<close>.\<close>

definition validate_call ::
  "host \<Rightarrow> (string \<times> schema_entry) list \<Rightarrow> jsvalue \<Rightarrow> heap \<Rightarrow>
   (error + (string \<times> VEErrorContainer) list) \<times> heap" where
  "validate_call hst schema data h = validate_loop hst schema data [] h"

definition validate ::
  "host \<Rightarrow> heap \<Rightarrow> (string \<times> schema_entry) list \<Rightarrow> jsvalue \<Rightarrow>
   error + (string \<times> VEErrorContainer) list" where
  "validate hst h schema data = fst (validate_call hst schema data h)"

section \<open>Heaps made by the builder\<close>

text \<open>
  The heaps a program reaches through the typed interface: the module is loaded,
  descriptors are made from \<^verbatim>\<open>field(name)\<close> with a string for the name,
  \<^verbatim>\<open>required\<close> and \<^verbatim>\<open>onlyFuture\<close> are called on descriptors that exist, and
  functions are pushed onto their \<^verbatim>\<open>customCriteria\<close>.
\<close>

inductive built :: "heap \<Rightarrow> bool" where
  built_loaded: "built module_loaded"
| built_typedField: "built h \<Longrightarrow> built (snd (typedField (field (FString n)) h))"
| built_required: "built h \<Longrightarrow> this < nextBuilder h \<Longrightarrow> built (required_method this msg h)"
| built_onlyFuture: "built h \<Longrightarrow> this < nextBuilder h \<Longrightarrow> built (onlyFuture_method this msg h)"
| built_push: "built h \<Longrightarrow> this < nextBuilder h \<Longrightarrow> built (customCriteria_push this f h)"

section \<open>Example programs\<close>

text \<open>A host in the time zone UTC whose clock reads \<open>t\<close>; its parser takes no
  string for a date (the result is NaN) and it knows no built-in property.\<close>

definition utc_host :: "int \<Rightarrow> host" where
  "utc_host t =
     \<lparr> now = t, LocalTZA = 0, dateValue = (\<lambda>v. Inr None), hostProperty = (\<lambda>v k. VUndefined) \<rparr>"

text \<open>\<^verbatim>\<open>field("name").string().required()\<close>: the descriptor and the heap.\<close>

definition name_required :: "nat \<times> heap" where
  "name_required =
     (let (this, h) = string_method (field (FString ''name'')) module_loaded
      in (this, required_method this None h))"

text \<open>\<^verbatim>\<open>const a = field("a").string(); const b = field("b").string();\<close>\<close>

definition two_fields :: "nat \<times> nat \<times> heap" where
  "two_fields =
     (let (a, h1) = string_method (field (FString ''a'')) module_loaded;
          (b, h2) = string_method (field (FString ''b'')) h1
      in (a, b, h2))"

text \<open>\<^verbatim>\<open>field("due_date").date().onlyFuture()\<close>\<close>

definition due_date_onlyFuture :: "nat \<times> heap" where
  "due_date_onlyFuture =
     (let (this, h) = date_method (field (FString ''due_date'')) module_loaded
      in (this, onlyFuture_method this None h))"

text \<open>
  \<^verbatim>\<open>
  const due = field("due").date().required().onlyFuture("too early");
  due.customCriteria.push((v) => (v instanceof Array ? "no lists" : null));
  due.customCriteria.push((v) => "always");
  \<close>
\<close>

definition due_checked :: "nat \<times> heap" where
  "due_checked =
     (let (this, h) = date_method (field (FString ''due'')) module_loaded;
          h1 = onlyFuture_method this (Some ''too early'') (required_method this None h);
          h2 = customCriteria_push this
                 (\<lambda>v. case v of VArray xs \<Rightarrow> Some ''no lists'' | _ \<Rightarrow> None) h1
      in (this, customCriteria_push this (\<lambda>v. Some ''always'') h2))"

text \<open>\<^verbatim>\<open>schema = { due_date: field("due_date").date().onlyFuture() }\<close>\<close>

definition due_date_schema :: "(string \<times> schema_entry) list \<times> heap" where
  "due_date_schema =
     (let (this, h) = date_method (field (FString ''due_date'')) module_loaded
      in ([(''due_date'', SValidator this)], onlyFuture_method this None h))"

text \<open>
  \<^verbatim>\<open>
  schema = { name: field("name").string().required(),
             address: { city: field("city").string().required() } }
  \<close>
\<close>

definition name_address_schema :: "(string \<times> schema_entry) list \<times> heap" where
  "name_address_schema =
     (let (n, h1) = string_method (field (FString ''name'')) module_loaded;
          h2 = required_method n None h1;
          (c, h3) = string_method (field (FString ''city'')) h2;
          h4 = required_method c None h3
      in ([(''name'', SValidator n), (''address'', SNested [(''city'', SValidator c)])], h4))"



text \<open>\<^verbatim>\<open>field(null as any).string().required()\<close> and
  \<^verbatim>\<open>field(undefined as any).string().required()\<close>: a field name that is not set.\<close>

definition null_name_required :: "nat \<times> heap" where
  "null_name_required =
     (let (this, h) = string_method (field FNull) module_loaded
      in (this, required_method this None h))"

definition undefined_name_required :: "nat \<times> heap" where
  "undefined_name_required =
     (let (this, h) = string_method (field FUndefined) module_loaded
      in (this, required_method this None h))"

text \<open>
  \<^verbatim>\<open>
  const d = field(null as any).string().required();
  d.customCriteria.push((v) => "always");
  \<close>
\<close>

definition null_name_always :: "nat \<times> heap" where
  "null_name_always =
     (let (this, h) = string_method (field FNull) module_loaded
      in (this, customCriteria_push this (\<lambda>v. Some ''always'') (required_method this None h)))"

section \<open>Facts about the descriptor\<close>

text \<open>The closure \<^verbatim>\<open>f\<close> throws on a null name and pushes the message otherwise.\<close>

lemma required_f_cases:
  "required_f this err h =
     (if fieldName (builders h this) = FNull
      then (Inl (AssertionError ''Field name not specified''), h)
      else (Inr (err @ [getMessageForCriteria (builders h this) (fieldName (builders h this)) required_key]), h))"
  by (simp add: required_f_def assert_def Let_def)

text \<open>The values on which the required check calls \<^verbatim>\<open>f\<close>.\<close>

lemma required_check_cases:
  "required_check this v err h =
     (if required (criteriaObjects h (criteria (builders h this))) \<and>
         (v = VUndefined \<or> (\<exists>s. v = VStringObject s \<and> trim s = []) \<or> v = VArray [] \<or> v = VSet [])
      then required_f this err h else (Inr err, h))"
  by (cases v) (simp_all add: required_check_def)

text \<open>A primitive string never fails the required check, blank or not.\<close>

lemma required_check_primitive_string: "required_check this (VString s) err h = (Inr err, h)"
  by (simp add: required_check_def)

text \<open>None of the steps of \<^verbatim>\<open>validate\<close> writes to the heap.\<close>

lemma required_check_heap: "snd (required_check this v err h) = h"
  by (simp add: required_check_cases required_f_cases)

lemma onlyFuture_check_heap: "snd (onlyFuture_check hst msg this v h) = h"
  by (simp add: onlyFuture_check_def Let_def split: sum.split)

lemma customChecker_heap: "snd (customChecker hst c v h) = h"
  by (cases c) (simp_all add: onlyFuture_check_heap)

lemma customCriteria_loop_heap: "snd (customCriteria_loop hst cs v err h) = h"
proof (induction cs arbitrary: err)
  case Nil
  show ?case by simp
next
  case (Cons c cs)
  obtain r h1 where r: "customChecker hst c v h = (r, h1)"
    by (cases "customChecker hst c v h")
  then have h1: "h1 = h"
    using customChecker_heap [of hst c v h] by simp
  show ?case
    using Cons.IH by (simp add: r h1 split: sum.split option.split)
qed

text \<open>The loop returns the messages of the criteria in their order, after the ones
  it started with, unless a criterion throws: then the first exception is the
  outcome.\<close>

lemma customCriteria_loop_result:
  "fst (customCriteria_loop hst cs v err h) =
     (case dropWhile (\<lambda>r. \<not> isl r) (map (\<lambda>c. fst (customChecker hst c v h)) cs) of
        [] \<Rightarrow> Inr (err @ List.map_filter projr (map (\<lambda>c. fst (customChecker hst c v h)) cs))
      | r # rest \<Rightarrow> Inl (projl r))"
proof (induction cs arbitrary: err)
  case Nil
  show ?case by simp
next
  case (Cons c cs)
  obtain r h1 where r: "customChecker hst c v h = (r, h1)"
    by (cases "customChecker hst c v h")
  then have h1: "h1 = h"
    using customChecker_heap [of hst c v h] by simp
  show ?case
  proof (cases r)
    case (Inl x)
    then show ?thesis by (simp add: r)
  next
    case (Inr m)
    then show ?thesis
      using Cons.IH by (cases m) (simp_all add: r h1 cong: list.case_cong)
  qed
qed

lemma validate_method_call_heap: "snd (validate_method_call hst this v h) = h"
proof -
  obtain r h1 where r: "required_check this v [] h = (r, h1)"
    by (cases "required_check this v [] h")
  then have h1: "h1 = h"
    using required_check_heap [of this v "[]" h] by simp
  show ?thesis
    by (cases r) (simp_all add: validate_method_call_def r h1 customCriteria_loop_heap)
qed

text \<open>The outcome of \<^verbatim>\<open>validate\<close> on a descriptor, in full.\<close>

lemma validate_method_cases_aux:
  assumes "required_check this v [] h = (if E then required_f this [] h else (Inr [], h))"
  shows "validate_method hst h this v =
     (if E \<and> fieldName (builders h this) = FNull
      then Inl (AssertionError ''Field name not specified'')
      else
        case dropWhile (\<lambda>r. \<not> isl r)
               (map (\<lambda>c. fst (customChecker hst c v h)) (customCriteria (builders h this))) of
          [] \<Rightarrow>
            Inr ((if E
                  then [getMessageForCriteria (builders h this) (fieldName (builders h this)) required_key]
                  else [])
                 @ List.map_filter projr
                     (map (\<lambda>c. fst (customChecker hst c v h)) (customCriteria (builders h this))))
        | r # rest \<Rightarrow> Inl (projl r))"
proof (cases E)
  case True
  then show ?thesis
    using assms
    by (cases "fieldName (builders h this) = FNull")
       (simp_all add: validate_method_def validate_method_call_def required_f_cases
          customCriteria_loop_result cong: list.case_cong)
next
  case False
  then show ?thesis
    using assms
    by (simp add: validate_method_def validate_method_call_def customCriteria_loop_result
          cong: list.case_cong)
qed

lemma validate_method_cases:
  "validate_method hst h this v =
     (if (required (criteriaObjects h (criteria (builders h this))) \<and>
          (v = VUndefined \<or> (\<exists>s. v = VStringObject s \<and> trim s = []) \<or> v = VArray [] \<or> v = VSet [])) \<and>
         fieldName (builders h this) = FNull
      then Inl (AssertionError ''Field name not specified'')
      else
        case dropWhile (\<lambda>r. \<not> isl r)
               (map (\<lambda>c. fst (customChecker hst c v h)) (customCriteria (builders h this))) of
          [] \<Rightarrow>
            Inr ((if required (criteriaObjects h (criteria (builders h this))) \<and>
                     (v = VUndefined \<or> (\<exists>s. v = VStringObject s \<and> trim s = []) \<or>
                      v = VArray [] \<or> v = VSet [])
                  then [getMessageForCriteria (builders h this) (fieldName (builders h this)) required_key]
                  else [])
                 @ List.map_filter projr
                     (map (\<lambda>c. fst (customChecker hst c v h)) (customCriteria (builders h this))))
        | r # rest \<Rightarrow> Inl (projl r))"
  by (rule validate_method_cases_aux [OF required_check_cases])



text \<open>Every descriptor of a built heap has a string for its name and refers to the
  one Criteria object \<open>DEFAULT_CRITERIA\<close>.\<close>

lemma built_invariant:
  "built h \<Longrightarrow> this < nextBuilder h \<Longrightarrow>
     (\<exists>n. fieldName (builders h this) = FString n) \<and> criteria (builders h this) = DEFAULT_CRITERIA"
proof (induction arbitrary: this rule: built.induct)
  case built_loaded
  then show ?case by (simp add: module_loaded_def)
next
  case (built_typedField h n)
  then show ?case by (auto simp: typedField_def field_def Let_def less_Suc_eq)
next
  case (built_required h r msg)
  then show ?case by (auto simp: required_method_def Let_def split: option.splits)
next
  case (built_onlyFuture h r msg)
  then show ?case by (auto simp: onlyFuture_method_def)
next
  case (built_push h r f)
  then show ?case by (auto simp: customCriteria_push_def)
qed

section \<open>The required check on strings\<close>

text \<open>
  Claim C1: on a descriptor with \<^verbatim>\<open>required()\<close> set, a string that is empty after
  trimming gives the required message, and a string that is not passes the required
  check. The source tests \<^verbatim>\<open>value instanceof String\<close>, which no primitive string
  satisfies: \<^verbatim>\<open>field("name").string().required().validate("  ")\<close> and the same on
  \<^verbatim>\<open>""\<close> return the empty array. Only a \<^verbatim>\<open>String\<close> wrapper object that is blank
  is rejected.
\<close>

theorem C1_blank_primitive_string_not_rejected:
  "validate_method hst (snd name_required) (fst name_required) (VString ''  '') = Inr []
   \<and> validate_method hst (snd name_required) (fst name_required) (VString '''') = Inr []
   \<and> validate_method hst (snd name_required) (fst name_required) (VStringObject ''  '')
       = Inr [''Name is required'']"
  by code_simp

section \<open>Sharing between descriptors\<close>

text \<open>In a built heap \<^verbatim>\<open>required\<close> on any descriptor sets the flag that every
  descriptor reads; the array of custom criteria and the Map of messages of another
  descriptor stay as they are.\<close>

lemma required_flag_shared:
  assumes "built h" and "a < nextBuilder h" and "b < nextBuilder h"
  shows "required (criteriaObjects (required_method a msg h)
                     (criteria (builders (required_method a msg h) b)))"
proof -
  have ca: "criteria (builders h a) = DEFAULT_CRITERIA"
    using built_invariant [OF assms(1) assms(2)] by simp
  have cb: "criteria (builders h b) = DEFAULT_CRITERIA"
    using built_invariant [OF assms(1) assms(3)] by simp
  show ?thesis
    using ca cb by (auto simp: required_method_def Let_def split: option.splits)
qed

lemma required_method_other_descriptor:
  "b \<noteq> a \<Longrightarrow> builders (required_method a msg h) b = builders h b"
  by (auto simp: required_method_def Let_def split: option.splits)

text \<open>
  Claim C2: \<^verbatim>\<open>required()\<close> on one descriptor leaves the Criteria of every other
  descriptor unchanged. In the source every descriptor holds a reference to the one
  object \<^verbatim>\<open>DEFAULT_CRITERIA\<close>: after
  \<^verbatim>\<open>const a = field("a").string(); const b = field("b").string(); a.required();\<close>
  the flag \<^verbatim>\<open>b.criteria.required\<close>, false before, is true, and
  \<^verbatim>\<open>b.validate(undefined)\<close>, empty before, reports that b is required.
\<close>

theorem C2_required_on_a_makes_b_required:
  "(case two_fields of (a, b, h) \<Rightarrow>
      a \<noteq> b
      \<and> required (criteriaObjects h (criteria (builders h b))) = False
      \<and> validate_method hst h b VUndefined = Inr []
      \<and> required (criteriaObjects (required_method a None h)
                    (criteria (builders (required_method a None h) b))) = True
      \<and> validate_method hst (required_method a None h) b VUndefined = Inr [''B is required''])"
  by code_simp

section \<open>Dates in the past\<close>

text \<open>The calendar of the model at some known days: the epoch is Thursday 1 January
  1970, the day before it is in December 1969, 29 February 2024 exists, and 2 November
  2026, 12:00 UTC is a Monday.\<close>

lemma calendar_checks:
  "YearMonthFromDay 0 = (1970, 0) \<and> WeekDay 0 = 4 \<and> DateFromTime 0 = 1
   \<and> YearMonthFromDay (- 1) = (1969, 11) \<and> DateFromTime (- 1) = 31
   \<and> YearMonthFromDay (DayFromYearMonth 2024 1 + 28) = (2024, 1)
   \<and> DayFromYearMonth 2024 2 = DayFromYearMonth 2024 1 + 29
   \<and> getFullYear (utc_host 1793620800000) 1793620800000 = 2026
   \<and> getMonth (utc_host 1793620800000) 1793620800000 = 10
   \<and> getDate (utc_host 1793620800000) 1793620800000 = 2
   \<and> getDay (utc_host 1793620800000) 1793620800000 = 1"
  by code_simp

text \<open>What \<^verbatim>\<open>timeOfThisDay\<close> returns is the start of today moved by as many days as
  the day of the week differs from the day of the month.\<close>

lemma timeOfThisDay_offset:
  "timeOfThisDay hst =
     startOfToday_spec hst + (getDay hst (now hst) - getDate hst (now hst)) * msPerDay"
  by (simp add: timeOfThisDay_def startOfToday_spec_def new_Date_ymd_def MakeDay_def UTC_def
        Let_def algebra_simps)

text \<open>A valid date is rejected exactly when it is before \<^verbatim>\<open>timeOfThisDay\<close>.\<close>

lemma onlyFuture_check_date:
  "(fst (onlyFuture_check hst msg this (VDate (Some t)) h) = Inr None) = (\<not> t < timeOfThisDay hst)"
  by (simp add: onlyFuture_check_def Let_def)

text \<open>An absent value passes the check of \<^verbatim>\<open>onlyFuture\<close>.\<close>

lemma onlyFuture_check_absent:
  "onlyFuture_check hst msg this VUndefined h = (Inr None, h) \<and>
   onlyFuture_check hst msg this VNull h = (Inr None, h)"
  by (simp add: onlyFuture_check_def)

text \<open>
  Claim C3: with \<^verbatim>\<open>onlyFuture()\<close> a date before local midnight of the current day is
  rejected and a date at or after it passes. \<^verbatim>\<open>timeOfThisDay\<close> passes the day of
  the week (\<^verbatim>\<open>getDay\<close>) where the day of the month belongs. In UTC, on Monday
  2 November 2026 at noon the start of the day is 2 November, 0:00, the source compares
  with 1 November, 0:00, and the date 1 November, 12:00 passes. On Saturday 1 August 2026
  at noon the source compares with 6 August, 0:00, and the date 3 August, 0:00, two days
  ahead, is rejected.
\<close>

theorem C3_onlyFuture_uses_day_of_week:
  "startOfToday_spec (utc_host 1793620800000) = 1793577600000
   \<and> timeOfThisDay (utc_host 1793620800000) = 1793491200000
   \<and> validate_method (utc_host 1793620800000) (snd due_date_onlyFuture) (fst due_date_onlyFuture)
        (VDate (Some 1793534400000)) = Inr []
   \<and> startOfToday_spec (utc_host 1785585600000) = 1785542400000
   \<and> timeOfThisDay (utc_host 1785585600000) = 1785974400000
   \<and> validate_method (utc_host 1785585600000) (snd due_date_onlyFuture) (fst due_date_onlyFuture)
        (VDate (Some 1785715200000)) = Inr [''Due date can't be in the past'']"
  by code_simp

section \<open>Schemas\<close>

text \<open>
  Claim C4: \<^verbatim>\<open>validate(schema, data)\<close> returns for every schema and every data
  object, also when the key of a nested schema is absent from the data. The
  recursive call gets the absent value as its \<^verbatim>\<open>data\<close> and reads a property of
  it: with the schema of name and address, the data \<^verbatim>\<open>{name: "Ann"}\<close> and the
  data \<^verbatim>\<open>{name: "Ann", address: undefined}\<close> end in a TypeError.
\<close>

theorem C4_absent_nested_data_throws:
  "validate hst (snd name_address_schema) (fst name_address_schema)
     (VObject [(''name'', VString ''Ann'')])
   = Inl (TypeError ''Cannot read properties of undefined (reading city)'')
   \<and> validate hst (snd name_address_schema) (fst name_address_schema)
     (VObject [(''name'', VString ''Ann''), (''address'', VUndefined)])
   = Inl (TypeError ''Cannot read properties of undefined (reading city)'')"
  by code_simp

text \<open>The result maps no key to an empty container: a key whose field has no error
  is absent.\<close>

lemma set_update_subset: "set (AList.update k v al) \<subseteq> insert (k, v) (set al)"
  by (induction al) auto

lemma validate_loop_sparse:
  "validate_loop hst schema data acc h = (Inr res, h') \<Longrightarrow>
   (\<And>k c. (k, c) \<in> set acc \<Longrightarrow> c \<noteq> Messages [] \<and> c \<noteq> Errors []) \<Longrightarrow>
   (k, c) \<in> set res \<Longrightarrow> c \<noteq> Messages [] \<and> c \<noteq> Errors []"
proof (induction hst schema data acc h arbitrary: res h' k c rule: validate_loop.induct)
  case (1 hst data validationErrors h)
  then show ?case by simp
next
  case (2 hst fName r rest data validationErrors h)
  from "2.prems"(1) obtain v where v: "getProperty hst data fName = Inr v"
    by (cases "getProperty hst data fName") simp_all
  obtain x h1 where x: "validate_method_call hst r v h = (x, h1)"
    by (cases "validate_method_call hst r v h")
  from "2.prems"(1) v x obtain e where e: "x = Inr e"
    by (cases x) simp_all
  let ?acc = "if length e \<noteq> 0 then AList.update fName (Messages e) validationErrors
              else validationErrors"
  have run: "validate_loop hst rest data ?acc h1 = (Inr res, h')"
    using "2.prems"(1) v x e by simp
  have acc: "\<And>k c. (k, c) \<in> set ?acc \<Longrightarrow> c \<noteq> Messages [] \<and> c \<noteq> Errors []"
    using "2.prems"(2) set_update_subset [of fName "Messages e" validationErrors]
    by (auto split: if_splits)
  show ?case
    using "2.IH" [OF v x [symmetric] e run acc "2.prems"(3)] .
next
  case (3 hst fName entries rest data validationErrors h)
  from "3.prems"(1) obtain v where v: "getProperty hst data fName = Inr v"
    by (cases "getProperty hst data fName") simp_all
  have nf: "\<not> isFinalValidatorField (SNested entries)"
    using "3.prems"(1) v by (auto simp del: isFinalValidatorField.simps split: if_splits)
  obtain x h1 where x: "validate_loop hst entries v [] h = (x, h1)"
    by (cases "validate_loop hst entries v [] h")
  from "3.prems"(1) v nf x obtain r where r: "x = Inr r"
    by (cases x) (simp_all del: isFinalValidatorField.simps)
  let ?acc = "if length r \<noteq> 0 then AList.update fName (Errors r) validationErrors
              else validationErrors"
  have run: "validate_loop hst rest data ?acc h1 = (Inr res, h')"
    using "3.prems"(1) v nf x r by (simp del: isFinalValidatorField.simps)
  have acc: "\<And>k c. (k, c) \<in> set ?acc \<Longrightarrow> c \<noteq> Messages [] \<and> c \<noteq> Errors []"
    using "3.prems"(2) set_update_subset [of fName "Errors r" validationErrors]
    by (auto split: if_splits)
  show ?case
    using "3.IH"(2) [OF v nf x [symmetric] r run acc "3.prems"(3)] .
next
  case (4 hst fName rest data validationErrors h)
  then show ?case by (simp split: sum.splits)
qed

lemma validate_sparse:
  "validate hst h schema data = Inr res \<Longrightarrow> (k, c) \<in> set res \<Longrightarrow>
     c \<noteq> Messages [] \<and> c \<noteq> Errors []"
proof -
  assume a: "validate hst h schema data = Inr res" and b: "(k, c) \<in> set res"
  obtain x h1 where x: "validate_loop hst schema data [] h = (x, h1)"
    by (cases "validate_loop hst schema data [] h")
  have "x = Inr res"
    using a x by (simp add: validate_def validate_call_def)
  then have run: "validate_loop hst schema data [] h = (Inr res, h1)"
    using x by simp
  show ?thesis
    by (rule validate_loop_sparse [OF run _ b]) simp
qed

text \<open>
  Claim C5: the schema of name and address on the data
  \<^verbatim>\<open>{name: "", address: {city: ""}}\<close> gives the two-level map of the two required
  messages, on \<^verbatim>\<open>{name: "Ann", address: {city: "Rome"}}\<close> the empty map, and keys
  without errors are absent. The empty strings of the first data are primitive
  strings, which the required check lets pass, so the first result is the empty map
  as well; the two-level map is the result for \<^verbatim>\<open>String\<close> objects.
\<close>

theorem C5_empty_strings_give_empty_map:
  "validate hst (snd name_address_schema) (fst name_address_schema)
     (VObject [(''name'', VString ''''), (''address'', VObject [(''city'', VString '''')])])
   = Inr []
   \<and> validate hst (snd name_address_schema) (fst name_address_schema)
     (VObject [(''name'', VString ''Ann''), (''address'', VObject [(''city'', VString ''Rome'')])])
   = Inr []
   \<and> validate hst (snd name_address_schema) (fst name_address_schema)
     (VObject [(''name'', VStringObject ''''), (''address'', VObject [(''city'', VStringObject '''')])])
   = Inr [(''name'', Messages [''Name is required'']),
          (''address'', Errors [(''city'', Messages [''City is required''])])]"
  by code_simp

section \<open>What counts as empty\<close>

text \<open>
  Claim C7: for the required check, empty is exactly: absent, a string that is blank
  after trimming, an array without elements, a set without elements. The empty array
  and the empty set are rejected, containers with an element pass, and so do 0, NaN
  and false; but a blank primitive string passes too, where the claim counts it as
  empty.
\<close>

theorem C7_required_empty_values:
  "validate_method hst (snd name_required) (fst name_required) (VArray []) = Inr [''Name is required'']
   \<and> validate_method hst (snd name_required) (fst name_required) (VSet []) = Inr [''Name is required'']
   \<and> validate_method hst (snd name_required) (fst name_required) (VArray [VUndefined]) = Inr []
   \<and> validate_method hst (snd name_required) (fst name_required) (VSet [VNumber (Finite 0)]) = Inr []
   \<and> validate_method hst (snd name_required) (fst name_required) (VNumber (Finite 0)) = Inr []
   \<and> validate_method hst (snd name_required) (fst name_required) (VNumber NaN) = Inr []
   \<and> validate_method hst (snd name_required) (fst name_required) (VBoolean False) = Inr []
   \<and> validate_method hst (snd name_required) (fst name_required) (VString ''   '') = Inr []"
  by code_simp

section \<open>The message of the required check\<close>







section \<open>The order of the checks\<close>

text \<open>
  Claim C8, as amended: in every call of \<^verbatim>\<open>validate\<close> on a descriptor that
  returns, the required check comes first and contributes at most one message; after
  it every custom criterion is evaluated on the value, in the order of
  \<^verbatim>\<open>customCriteria\<close>, whatever the required check or an earlier criterion gave,
  and the messages are collected in that order. A call that does not return ends at
  the first exception in the same order, the assertion of the required check on a
  null field name or the exception out of a criterion, and gives no message.
  \<^verbatim>\<open>onlyFuture\<close> and \<^verbatim>\<open>push\<close> register a criterion at the end.
  In the statement the outcomes of the criteria are listed in the order of
  \<^verbatim>\<open>customCriteria\<close>; \<open>dropWhile\<close> skips the ones that returned and stops at the
  first exception, and when there is none \<open>map_filter\<close> keeps the messages and drops
  the nulls.
\<close>

theorem C8_checks_in_order:
  "validate_method hst h this v =
     (if (required (criteriaObjects h (criteria (builders h this))) \<and>
          (v = VUndefined \<or> (\<exists>s. v = VStringObject s \<and> trim s = []) \<or> v = VArray [] \<or> v = VSet [])) \<and>
         fieldName (builders h this) = FNull
      then Inl (AssertionError ''Field name not specified'')
      else
        case dropWhile (\<lambda>r. \<not> isl r)
               (map (\<lambda>c. fst (customChecker hst c v h)) (customCriteria (builders h this))) of
          [] \<Rightarrow>
            Inr ((if required (criteriaObjects h (criteria (builders h this))) \<and>
                     (v = VUndefined \<or> (\<exists>s. v = VStringObject s \<and> trim s = []) \<or>
                      v = VArray [] \<or> v = VSet [])
                  then [getMessageForCriteria (builders h this) (fieldName (builders h this)) required_key]
                  else [])
                 @ List.map_filter projr
                     (map (\<lambda>c. fst (customChecker hst c v h)) (customCriteria (builders h this))))
        | r # rest \<Rightarrow> Inl (projl r))
   \<and> customCriteria (builders (onlyFuture_method this msg h) this) =
       customCriteria (builders h this) @ [onlyFuture_closure msg this]
   \<and> customCriteria (builders (customCriteria_push this f h) this) =
       customCriteria (builders h this) @ [custom_function f]"
  by (simp add: validate_method_cases onlyFuture_method_def customCriteria_push_def)

text \<open>
  On the descriptor \<open>due_checked\<close>, on 2 November 2026: the empty array fails the
  required check, passes \<^verbatim>\<open>onlyFuture\<close> (it is no date) and fails the two
  functions of the caller; a date of 1970 passes the required check, fails
  \<^verbatim>\<open>onlyFuture\<close>, passes the first function and fails the second; the date of the
  day fails the last criterion only.
\<close>

theorem C8_witness:
  "validate_method (utc_host 1793620800000) (snd due_checked) (fst due_checked) (VArray [])
     = Inr [''Due is required'', ''no lists'', ''always'']
   \<and> validate_method (utc_host 1793620800000) (snd due_checked) (fst due_checked) (VDate (Some 0))
     = Inr [''too early'', ''always'']
   \<and> validate_method (utc_host 1793620800000) (snd due_checked) (fst due_checked)
       (VDate (Some 1793620800000))
     = Inr [''always'']"
proof -
  let ?hst = "utc_host 1793620800000" and ?h = "snd due_checked" and ?d = "fst due_checked"
  have rq: "required (criteriaObjects ?h (criteria (builders ?h ?d)))"
    by code_simp
  have nm: "fieldName (builders ?h ?d) = FString ''due''"
    by code_simp
  have ms: "getMessageForCriteria (builders ?h ?d) (FString ''due'') required_key = ''Due is required''"
    by code_simp
  have rs1: "map (\<lambda>c. fst (customChecker ?hst c (VArray []) ?h)) (customCriteria (builders ?h ?d))
               = [Inr None, Inr (Some ''no lists''), Inr (Some ''always'')]"
    by code_simp
  have rs2: "map (\<lambda>c. fst (customChecker ?hst c (VDate (Some 0)) ?h)) (customCriteria (builders ?h ?d))
               = [Inr (Some ''too early''), Inr None, Inr (Some ''always'')]"
    by code_simp
  have rs3: "map (\<lambda>c. fst (customChecker ?hst c (VDate (Some 1793620800000)) ?h))
               (customCriteria (builders ?h ?d))
               = [Inr None, Inr None, Inr (Some ''always'')]"
    by code_simp
  have a: "validate_method ?hst ?h ?d (VArray []) = Inr [''Due is required'', ''no lists'', ''always'']"
    using C8_checks_in_order [of ?hst ?h ?d "VArray []"] by (simp add: rq nm ms rs1)
  have b: "validate_method ?hst ?h ?d (VDate (Some 0)) = Inr [''too early'', ''always'']"
    using C8_checks_in_order [of ?hst ?h ?d "VDate (Some 0)"] by (simp add: rq nm ms rs2)
  have c: "validate_method ?hst ?h ?d (VDate (Some 1793620800000)) = Inr [''always'']"
    using C8_checks_in_order [of ?hst ?h ?d "VDate (Some 1793620800000)"]
    by (simp add: rq nm ms rs3)
  show ?thesis using a b c by simp
qed

text \<open>
  As the claim is written, for every call, it fails where a call throws (the clock
  reads 2 November 2026). On \<open>null_name_always\<close> the value \<^verbatim>\<open>"x"\<close> gets the message of the criterion, but
  on undefined the assertion ends the call before the criterion is reached. On
  \<open>due_checked\<close> the number 1 gets the messages of the first and the last
  criterion, but on a symbol, and on the object \<^verbatim>\<open>{toString: 1}\<close>,
  \<^verbatim>\<open>new Date(_value)\<close> throws in the first criterion and the last one, which has a
  message for every value, is not reached.
\<close>

theorem C8_counterexample:
  "validate_method (utc_host 1793620800000) (snd null_name_always) (fst null_name_always) (VString ''x'')
     = Inr [''always'']
   \<and> validate_method (utc_host 1793620800000) (snd null_name_always) (fst null_name_always) VUndefined
     = Inl (AssertionError ''Field name not specified'')
   \<and> validate_method (utc_host 1793620800000) (snd due_checked) (fst due_checked) (VNumber (Finite 1))
     = Inr [''too early'', ''always'']
   \<and> validate_method (utc_host 1793620800000) (snd due_checked) (fst due_checked) (VSymbol ''s'')
     = Inl (TypeError ''Cannot convert a Symbol value to a number'')
   \<and> validate_method (utc_host 1793620800000) (snd due_checked) (fst due_checked)
       (VObject [(''toString'', VNumber (Finite 1))])
     = Inl (TypeError ''Cannot convert object to primitive value'')"
  by code_simp

section \<open>Repeated validation\<close>

text \<open>
  The two functions \<^verbatim>\<open>validate\<close> read descriptors and write none: the calls
  return the heap they were given.
\<close>

lemma validate_loop_heap: "snd (validate_loop hst schema data acc h) = h"
proof (induction hst schema data acc h rule: validate_loop.induct)
  case (1 hst data validationErrors h)
  show ?case by simp
next
  case (2 hst fName r rest data validationErrors h)
  show ?case
  proof (cases "getProperty hst data fName")
    case (Inl x)
    then show ?thesis by simp
  next
    case (Inr v)
    obtain e h1 where e: "validate_method_call hst r v h = (e, h1)"
      by (cases "validate_method_call hst r v h")
    then have h1: "h1 = h"
      using validate_method_call_heap [of hst r v h] by simp
    show ?thesis
    proof (cases e)
      case (Inl x)
      then show ?thesis by (simp add: Inr e h1)
    next
      case (Inr errs)
      show ?thesis
        using "2.IH" [OF \<open>getProperty hst data fName = Inr v\<close> e [symmetric] Inr]
        by (simp add: \<open>getProperty hst data fName = Inr v\<close> e Inr h1)
    qed
  qed
next
  case (3 hst fName entries rest data validationErrors h)
  show ?case
  proof (cases "getProperty hst data fName")
    case (Inl x)
    then show ?thesis by simp
  next
    case (Inr v)
    note v = this
    show ?thesis
    proof (cases "isFinalValidatorField (SNested entries)")
      case True
      then show ?thesis using v by (simp del: isFinalValidatorField.simps)
    next
      case False
      note nf = this
      obtain res h1 where res: "validate_loop hst entries v [] h = (res, h1)"
        by (cases "validate_loop hst entries v [] h")
      have h1: "h1 = h"
        using "3.IH"(1) [OF v nf] res by simp
      show ?thesis
      proof (cases res)
        case (Inl x)
        then show ?thesis using v nf by (simp add: res h1 del: isFinalValidatorField.simps)
      next
        case (Inr m)
        show ?thesis
          using "3.IH"(2) [OF v nf res [symmetric] Inr] v nf
          by (simp add: res Inr h1 del: isFinalValidatorField.simps)
      qed
    qed
  qed
next
  case (4 hst fName rest data validationErrors h)
  show ?case by (simp split: sum.split)
qed

lemma validate_call_heap: "snd (validate_call hst schema data h) = h"
  by (simp add: validate_call_def validate_loop_heap)

text \<open>
  Claim C9: \<^verbatim>\<open>validate(schema, data)\<close> leaves the heap as it found it, so no
  Criteria, no custom criteria and no message of any descriptor is changed, and a
  second call with the same schema and data, run in the heap the first call left,
  returns or throws what the first did; the same holds for \<^verbatim>\<open>validate\<close> on a
  descriptor. Both calls are taken at one reading of the host's clock.
\<close>

theorem C9_validate_changes_nothing:
  "snd (validate_call hst schema data h) = h
   \<and> criteriaObjects (snd (validate_call hst schema data h)) = criteriaObjects h
   \<and> builders (snd (validate_call hst schema data h)) = builders h
   \<and> validate hst (snd (validate_call hst schema data h)) schema data = validate hst h schema data
   \<and> snd (validate_method_call hst this v h) = h
   \<and> validate_method hst (snd (validate_method_call hst this v h)) this v = validate_method hst h this v"
  by (simp add: validate_call_heap validate_method_call_heap)

text \<open>The schema of name and address on blank \<^verbatim>\<open>String\<close> objects: the second
  call gives the two-level map of the first, nothing is added to it.\<close>

theorem C9_witness:
  "validate (utc_host 0)
     (snd (validate_call (utc_host 0) (fst name_address_schema)
             (VObject [(''name'', VStringObject ''''), (''address'', VObject [(''city'', VStringObject '''')])])
             (snd name_address_schema)))
     (fst name_address_schema)
     (VObject [(''name'', VStringObject ''''), (''address'', VObject [(''city'', VStringObject '''')])])
   = Inr [(''name'', Messages [''Name is required'']),
          (''address'', Errors [(''city'', Messages [''City is required''])])]"
proof -
  let ?d = "VObject [(''name'', VStringObject ''''), (''address'', VObject [(''city'', VStringObject '''')])]"
  have first: "validate (utc_host 0) (snd name_address_schema) (fst name_address_schema) ?d
     = Inr [(''name'', Messages [''Name is required'']),
            (''address'', Errors [(''city'', Messages [''City is required''])])]"
    by code_simp
  show ?thesis
    using C9_validate_changes_nothing
            [of "utc_host 0" "fst name_address_schema" ?d "snd name_address_schema"] first
    by simp
qed

text \<open>The clock enters the result through \<^verbatim>\<open>timeOfThisDay\<close> only: two readings
  on which it agrees give the same result.\<close>

lemma new_Date_getTime_host:
  "dateValue hst2 = dateValue hst1 \<Longrightarrow> new_Date_getTime hst2 v = new_Date_getTime hst1 v"
  by (cases v) (simp_all split: option.split)

lemma onlyFuture_check_host:
  assumes "timeOfThisDay hst2 = timeOfThisDay hst1" and "dateValue hst2 = dateValue hst1"
  shows "onlyFuture_check hst2 msg this v h = onlyFuture_check hst1 msg this v h"
  unfolding onlyFuture_check_def
  by (simp only: assms(1) new_Date_getTime_host [OF assms(2)])

lemma customChecker_host:
  assumes "timeOfThisDay hst2 = timeOfThisDay hst1" and "dateValue hst2 = dateValue hst1"
  shows "customChecker hst2 c v h = customChecker hst1 c v h"
  by (cases c) (simp_all add: onlyFuture_check_host [OF assms])

lemma validate_method_host:
  assumes "timeOfThisDay hst2 = timeOfThisDay hst1" and "dateValue hst2 = dateValue hst1"
  shows "validate_method hst2 h this v = validate_method hst1 h this v"
  unfolding validate_method_cases by (simp only: customChecker_host [OF assms])

lemma validate_method_call_host:
  assumes "timeOfThisDay hst2 = timeOfThisDay hst1" and "dateValue hst2 = dateValue hst1"
  shows "validate_method_call hst2 this v h = validate_method_call hst1 this v h"
proof -
  have "fst (validate_method_call hst2 this v h) = fst (validate_method_call hst1 this v h)"
    using validate_method_host [OF assms] by (simp add: validate_method_def)
  then show ?thesis
    by (intro prod_eqI) (simp_all add: validate_method_call_heap)
qed

lemma getProperty_host:
  assumes "hostProperty hst2 = hostProperty hst1"
  shows "getProperty hst2 data k = getProperty hst1 data k"
  by (cases data) (simp_all add: assms)

lemma validate_loop_host:
  "timeOfThisDay hst2 = timeOfThisDay hst1 \<Longrightarrow> dateValue hst2 = dateValue hst1 \<Longrightarrow>
   hostProperty hst2 = hostProperty hst1 \<Longrightarrow>
   validate_loop hst2 schema data acc h = validate_loop hst1 schema data acc h"
proof (induction hst1 schema data acc h rule: validate_loop.induct)
  case (1 hst data validationErrors h)
  show ?case by simp
next
  case (2 hst fName r rest data validationErrors h)
  have gp: "getProperty hst2 data fName = getProperty hst data fName"
    using "2.prems"(3) by (rule getProperty_host)
  have vm: "\<And>v. validate_method_call hst2 r v h = validate_method_call hst r v h"
    using "2.prems"(1,2) by (rule validate_method_call_host)
  show ?case
  proof (cases "getProperty hst data fName")
    case (Inl x)
    then show ?thesis by (simp add: gp)
  next
    case (Inr v)
    note v = this
    obtain x h1 where x: "validate_method_call hst r v h = (x, h1)"
      by (cases "validate_method_call hst r v h")
    show ?thesis
    proof (cases x)
      case (Inl e)
      then show ?thesis by (simp add: gp vm v x)
    next
      case (Inr e)
      then show ?thesis
        using "2.IH" [OF v x [symmetric] Inr "2.prems"] by (simp add: gp vm v x)
    qed
  qed
next
  case (3 hst fName entries rest data validationErrors h)
  have gp: "getProperty hst2 data fName = getProperty hst data fName"
    using "3.prems"(3) by (rule getProperty_host)
  show ?case
  proof (cases "getProperty hst data fName")
    case (Inl x)
    then show ?thesis by (simp add: gp)
  next
    case (Inr v)
    note v = this
    show ?thesis
    proof (cases "isFinalValidatorField (SNested entries)")
      case True
      then show ?thesis using v by (simp add: gp del: isFinalValidatorField.simps)
    next
      case False
      note nf = this
      have inner: "validate_loop hst2 entries v [] h = validate_loop hst entries v [] h"
        using "3.IH"(1) [OF v nf "3.prems"] .
      obtain x h1 where x: "validate_loop hst entries v [] h = (x, h1)"
        by (cases "validate_loop hst entries v [] h")
      show ?thesis
      proof (cases x)
        case (Inl e)
        then show ?thesis using v nf inner x by (simp add: gp del: isFinalValidatorField.simps)
      next
        case (Inr res)
        then show ?thesis
          using v nf inner x "3.IH"(2) [OF v nf x [symmetric] Inr "3.prems"]
          by (simp add: gp del: isFinalValidatorField.simps)
      qed
    qed
  qed
next
  case (4 hst fName rest data validationErrors h)
  have gp: "getProperty hst2 data fName = getProperty hst data fName"
    using "4.prems"(3) by (rule getProperty_host)
  show ?case by (simp add: gp)
qed

lemma validate_host:
  assumes "timeOfThisDay hst2 = timeOfThisDay hst1" and "dateValue hst2 = dateValue hst1"
    and "hostProperty hst2 = hostProperty hst1"
  shows "validate hst2 h schema data = validate hst1 h schema data"
  unfolding validate_def validate_call_def by (simp only: validate_loop_host [OF assms])

section \<open>The assertion on the field name\<close>

text \<open>What the code does: the assertion fires when the name is null and the required
  check fails, and for no other name; it does not fire on a descriptor of a built
  heap, whose name is a string.\<close>

lemma required_check_assertion:
  "(fst (required_check this v err h) = Inl e) =
     (e = AssertionError ''Field name not specified'' \<and>
      fieldName (builders h this) = FNull \<and>
      required (criteriaObjects h (criteria (builders h this))) \<and>
      (v = VUndefined \<or> (\<exists>s. v = VStringObject s \<and> trim s = []) \<or> v = VArray [] \<or> v = VSet []))"
  unfolding required_check_cases required_f_cases by auto

lemma built_required_check_returns:
  assumes "built h" and "this < nextBuilder h"
  shows "\<exists>r. fst (required_check this v err h) = Inr r"
proof -
  obtain n where "fieldName (builders h this) = FString n"
    using built_invariant [OF assms] by blast
  then show ?thesis
    unfolding required_check_cases required_f_cases by simp
qed

text \<open>
  Claim C10: on a descriptor whose field name is not set the required check aborts
  with the assertion failure "Field name not specified", and on a descriptor built
  through \<^verbatim>\<open>field(name)\<close> the assertion never fires. The source asserts
  \<^verbatim>\<open>_this._fieldName !== null\<close>: a name that is null aborts, but a name that is
  undefined passes the assertion, and
  \<^verbatim>\<open>field(undefined as any).string().required().validate(undefined)\<close> returns a
  message made from the word "undefined".
\<close>

theorem C10_undefined_name_passes_assertion:
  "validate_method hst (snd undefined_name_required) (fst undefined_name_required) VUndefined
     = Inr [''Undefined is required'']
   \<and> validate_method hst (snd null_name_required) (fst null_name_required) VUndefined
     = Inl (AssertionError ''Field name not specified'')"
  by code_simp

end
